theory Spec2Isabelle
  imports Complex_Main
begin

section \<open>Common Python notions\<close>

text \<open>
  Exceptions of the Python source are values.  Functions that can raise return
  \<open>py_error + 'a\<close>, with \<open>Inl\<close> carrying the exception.  \<open>ProviderError\<close>
  stands for any exception raised by an external collaborator (the embedding
  model, the OpenAI client, the database driver).
\<close>

datatype py_error = ValueError | TypeError | AttributeError | IndexError
  | RuntimeError | ProviderError

text \<open>The one-character string \<^verbatim>\<open>"\n"\<close>.\<close>

definition newline :: string where
  "newline = [CHR 0x0A]"

text \<open>
  A Python string is a list of characters, one for each code point.
  \<^verbatim>\<open>str.strip()\<close> without argument removes leading and trailing whitespace.
  For the code points below 256 these are the characters 9 to 13, 28 to 32,
  133 and 160.
\<close>

definition py_isspace :: "char \<Rightarrow> bool" where
  "py_isspace c = (of_char c \<in> {9::nat, 10, 11, 12, 13, 28, 29, 30, 31, 32, 133, 160})"

definition strip_chars :: "(char \<Rightarrow> bool) \<Rightarrow> string \<Rightarrow> string" where
  "strip_chars p s = rev (dropWhile p (rev (dropWhile p s)))"

definition strip :: "string \<Rightarrow> string" where
  "strip s = strip_chars py_isspace s"

text \<open>\<^verbatim>\<open>sep.join(parts)\<close>.\<close>

fun join :: "string \<Rightarrow> string list \<Rightarrow> string" where
  "join sep [] = []"
| "join sep [p] = p"
| "join sep (p # q # ps) = p @ sep @ join sep (q # ps)"

section \<open>Chat message normalisation: \<^verbatim>\<open>services/perplexity.py\<close> and \<^verbatim>\<open>routes/chat.py\<close>\<close>

text \<open>A message dictionary with its two keys \<^verbatim>\<open>role\<close> and \<^verbatim>\<open>content\<close>.\<close>

record chat_msg =
  role :: string
  content :: string

text \<open>\<^verbatim>\<open>m['content'] += f"\n{c}"\<close>\<close>

definition append_content :: "chat_msg \<Rightarrow> string \<Rightarrow> chat_msg" where
  "append_content m c = m\<lparr>content := content m @ newline @ c\<rparr>"

text \<open>
  \<^verbatim>\<open>build_session_context\<close>: the last \<open>max_messages\<close> messages, reduced to role and
  content.  The slice \<^verbatim>\<open>messages[-max_messages:]\<close> with \<open>max_messages = 0\<close> is the
  whole list.
\<close>

definition build_session_context :: "chat_msg list \<Rightarrow> nat \<Rightarrow> chat_msg list" where
  "build_session_context messages max_messages =
     (let recent = (if length messages > max_messages
                    then (if max_messages = 0 then messages
                          else drop (length messages - max_messages) messages)
                    else messages)
      in map (\<lambda>msg. \<lparr>role = role msg, content = content msg\<rparr>) recent)"

text \<open>
  \<^verbatim>\<open>send_message\<close> in routes/chat.py: the new user message is appended to the
  session context, or merged into its last entry when that one is a user message.
\<close>

definition messages_for_api :: "chat_msg list \<Rightarrow> string \<Rightarrow> chat_msg list" where
  "messages_for_api session_context message =
     (if session_context \<noteq> [] \<and> role (last session_context) = ''user''
      then butlast session_context @ [append_content (last session_context) message]
      else session_context @ [\<lparr>role = ''user'', content = message\<rparr>])"

text \<open>
  \<^verbatim>\<open>call_perplexity\<close>, first loop: one iteration on the list \<open>normalized\<close> built so
  far.
\<close>

definition normalize_step :: "chat_msg list \<Rightarrow> chat_msg \<Rightarrow> chat_msg list" where
  "normalize_step normalized msg =
     (if normalized \<noteq> [] \<and> role (last normalized) = role msg \<and> role msg \<noteq> ''system''
      then butlast normalized @ [append_content (last normalized) (content msg)]
      else normalized @ [msg])"

definition normalized :: "chat_msg list \<Rightarrow> chat_msg list" where
  "normalized messages = foldl normalize_step [] messages"

text \<open>The system prompt first, then the normalised messages that are not system messages.\<close>

definition final_messages :: "string \<Rightarrow> chat_msg list \<Rightarrow> chat_msg list" where
  "final_messages system_prompt messages =
     \<lparr>role = ''system'', content = system_prompt\<rparr>
       # filter (\<lambda>m. role m \<noteq> ''system'') (normalized messages)"

text \<open>
  Second loop (``ensure alternating roles''): one iteration on the list
  \<open>validated_messages\<close>, which is never empty.
\<close>

definition validate_step :: "chat_msg list \<Rightarrow> chat_msg \<Rightarrow> chat_msg list" where
  "validate_step validated current =
     (if role (last validated) = role current
      then butlast validated @ [append_content (last validated) (content current)]
      else validated @ [current])"

text \<open>
  The loop starts from \<^verbatim>\<open>[final_messages[0]]\<close>.  On the empty list that read raises
  IndexError; \<^verbatim>\<open>call_perplexity\<close> never reaches it, as \<open>final_messages\<close> starts with
  the system prompt.
\<close>

definition ensure_alternating :: "chat_msg list \<Rightarrow> py_error + chat_msg list" where
  "ensure_alternating final =
     (case final of
        [] \<Rightarrow> Inl IndexError
      | first # rest \<Rightarrow> Inr (foldl validate_step [first] rest))"

text \<open>The message list handed to the external model by \<^verbatim>\<open>call_perplexity\<close>.\<close>

definition validated_messages :: "string \<Rightarrow> chat_msg list \<Rightarrow> chat_msg list" where
  "validated_messages system_prompt messages =
     foldl validate_step [\<lparr>role = ''system'', content = system_prompt\<rparr>]
       (filter (\<lambda>m. role m \<noteq> ''system'') (normalized messages))"

text \<open>
  The normalised form as the specification words it: a leading system entry and no two
  adjacent entries of equal role.
\<close>

definition normalized_form :: "chat_msg list \<Rightarrow> bool" where
  "normalized_form ms =
     (ms \<noteq> [] \<and> role (hd ms) = ''system'' \<and> distinct_adj (map role ms))"

section \<open>Embedding service: \<^verbatim>\<open>services/embedding_service.py\<close>\<close>

text \<open>
  The two modes of \<^verbatim>\<open>EmbeddingService.MODES\<close>.  The constructor rejects every other
  mode string with ValueError, so a constructed service has one of these.
\<close>

datatype embedding_mode = LOCAL | OPENAI

text \<open>
  The external collaborators.  A vector is a value of the type variable \<open>'v\<close>.
  \<^verbatim>\<open>SentenceTransformer.encode\<close> takes one string or a list of strings;
  \<^verbatim>\<open>client.embeddings.create\<close> likewise, and answers with the list \<^verbatim>\<open>response.data\<close>.
  Each call may raise.
\<close>

record 'v sentence_transformer =
  encode :: "string \<Rightarrow> py_error + 'v"
  encode_batch :: "string list \<Rightarrow> py_error + 'v list"

record 'v openai_client =
  embeddings_create :: "string \<Rightarrow> py_error + 'v list"
  embeddings_create_batch :: "string list \<Rightarrow> py_error + 'v list"

record 'v embedding_service =
  mode :: embedding_mode
  model_name :: string
  dimensions :: nat
  max_tokens :: nat
  model :: "'v sentence_transformer option"
  client :: "'v openai_client option"

text \<open>\<^verbatim>\<open>__init__\<close> with mode LOCAL, respectively OPENAI, once the library is loaded.\<close>

definition local_service :: "'v sentence_transformer \<Rightarrow> 'v embedding_service" where
  "local_service m =
     \<lparr>mode = LOCAL, model_name = ''all-MiniLM-L6-v2'', dimensions = 384,
      max_tokens = 512, model = Some m, client = None\<rparr>"

definition openai_service :: "'v openai_client \<Rightarrow> 'v embedding_service" where
  "openai_service c =
     \<lparr>mode = OPENAI, model_name = ''text-embedding-3-small'', dimensions = 1536,
      max_tokens = 8191, model = None, client = Some c\<rparr>"

text \<open>\<^verbatim>\<open>_generate_local\<close>: the text goes to the model as it is.\<close>

definition generate_local :: "'v embedding_service \<Rightarrow> string \<Rightarrow> py_error + 'v" where
  "generate_local svc text =
     (case model svc of
        None \<Rightarrow> Inl RuntimeError
      | Some m \<Rightarrow> encode m text)"

text \<open>
  \<^verbatim>\<open>_generate_openai\<close>: the text is cut to \<^verbatim>\<open>text[:self.max_tokens * 4]\<close>, and the
  result is \<^verbatim>\<open>response.data[0].embedding\<close>.
\<close>

definition generate_openai :: "'v embedding_service \<Rightarrow> string \<Rightarrow> py_error + 'v" where
  "generate_openai svc text =
     (case client svc of
        None \<Rightarrow> Inl RuntimeError
      | Some c \<Rightarrow>
          (let truncated_text = take (max_tokens svc * 4) text
           in case embeddings_create c truncated_text of
                Inl e \<Rightarrow> Inl e
              | Inr [] \<Rightarrow> Inl IndexError
              | Inr (d # _) \<Rightarrow> Inr d))"

text \<open>
  \<^verbatim>\<open>generate_embedding\<close>: ValueError on an empty or blank text, raised outside the
  \<^verbatim>\<open>try\<close>; any exception of the mode's generator is caught and gives \<^verbatim>\<open>None\<close>.
\<close>

definition generate_embedding :: "'v embedding_service \<Rightarrow> string \<Rightarrow> py_error + 'v option" where
  "generate_embedding svc text =
     (if text = [] \<or> strip text = [] then Inl ValueError
      else case (case mode svc of
                   LOCAL \<Rightarrow> generate_local svc text
                 | OPENAI \<Rightarrow> generate_openai svc text) of
             Inl e \<Rightarrow> Inr None
           | Inr v \<Rightarrow> Inr (Some v))"

text \<open>\<^verbatim>\<open>_generate_batch_local\<close> and \<^verbatim>\<open>_generate_batch_openai\<close>.\<close>

definition generate_batch_local :: "'v embedding_service \<Rightarrow> string list \<Rightarrow> py_error + 'v list" where
  "generate_batch_local svc texts =
     (case model svc of
        None \<Rightarrow> Inl RuntimeError
      | Some m \<Rightarrow> encode_batch m (map (\<lambda>t. if t \<noteq> [] then strip t else []) texts))"

definition generate_batch_openai :: "'v embedding_service \<Rightarrow> string list \<Rightarrow> py_error + 'v list" where
  "generate_batch_openai svc texts =
     (case client svc of
        None \<Rightarrow> Inl RuntimeError
      | Some c \<Rightarrow>
          embeddings_create_batch c
            (map (\<lambda>t. if t \<noteq> [] \<and> strip t \<noteq> []
                       then take (max_tokens svc * 4) (strip t) else ''empty'') texts))"

text \<open>
  \<^verbatim>\<open>generate_embeddings_batch\<close>: ValueError on the empty list; an exception of the
  mode's batch generator gives \<^verbatim>\<open>[None] * len(texts)\<close>.
\<close>

definition generate_embeddings_batch ::
  "'v embedding_service \<Rightarrow> string list \<Rightarrow> py_error + 'v option list" where
  "generate_embeddings_batch svc texts =
     (if texts = [] then Inl ValueError
      else case (case mode svc of
                   LOCAL \<Rightarrow> generate_batch_local svc texts
                 | OPENAI \<Rightarrow> generate_batch_openai svc texts) of
             Inl e \<Rightarrow> Inr (replicate (length texts) None)
           | Inr embeddings \<Rightarrow> Inr (map Some embeddings))"

subsection \<open>Vector serialisation\<close>

text \<open>
  \<^verbatim>\<open>s.split(sep)\<close> for a separator of one character: the empty string splits into one
  empty piece.
\<close>

fun split :: "char \<Rightarrow> string \<Rightarrow> string list" where
  "split sep [] = [[]]"
| "split sep (c # cs) =
     (if c = sep then [] # split sep cs
      else (case split sep cs of
              [] \<Rightarrow> [[c]]
            | p # ps \<Rightarrow> (c # p) # ps))"



section \<open>Search results of the model response: \<^verbatim>\<open>services/perplexity.py\<close>\<close>

text \<open>
  A search result dictionary.  \<open>None\<close> is an absent key; a key that is there holds
  a string.
\<close>

record search_result =
  sr_title :: "string option"
  sr_url :: "string option"
  sr_snippet :: "string option"
  sr_date :: "string option"

text \<open>\<^verbatim>\<open>result.get(key, '')\<close>\<close>

definition get_str :: "string option \<Rightarrow> string" where
  "get_str v = (case v of None \<Rightarrow> [] | Some s \<Rightarrow> s)"

text \<open>One iteration of the loop over \<^verbatim>\<open>search_results_raw\<close> in \<^verbatim>\<open>call_perplexity\<close>.\<close>

definition search_results_step :: "search_result list \<Rightarrow> search_result \<Rightarrow> search_result list" where
  "search_results_step search_results result =
     (let url = get_str (sr_url result);
          title = get_str (sr_title result);
          snippet = get_str (sr_snippet result);
          date = sr_date result
      in if url \<noteq> [] \<and> strip url \<noteq> [] \<and> title \<noteq> [] \<and> strip title \<noteq> []
         then search_results @
                [\<lparr>sr_title = Some title, sr_url = Some url, sr_snippet = Some snippet,
                  sr_date = date\<rparr>]
         else search_results)"

definition extract_search_results :: "search_result list \<Rightarrow> search_result list" where
  "extract_search_results search_results_raw = foldl search_results_step [] search_results_raw"

section \<open>Context assembly from similarity matches: \<^verbatim>\<open>services/perplexity.py\<close>\<close>

record relationship =
  rel_type :: "string option"
  rel_related_entity :: "string option"

text \<open>
  A match dictionary as \<^verbatim>\<open>search_similar_patient_memories\<close> builds it.  \<open>None\<close> is an
  absent key; metadata is a dictionary as an association list.
\<close>

record memory_match =
  mm_id :: string
  mm_user_id :: string
  mm_entity_type :: "string option"
  mm_entity_name :: "string option"
  mm_relationships :: "relationship list option"
  mm_metadata :: "(string \<times> string) list option"
  mm_conversation_id :: "string option"
  mm_similarity :: "real option"

text \<open>\<^verbatim>\<open>result.get('similarity', 0)\<close>\<close>

definition get_similarity :: "memory_match \<Rightarrow> real" where
  "get_similarity result = (case mm_similarity result of None \<Rightarrow> 0 | Some s \<Rightarrow> s)"

text \<open>The parts \<^verbatim>\<open>rel_parts\<close> of the relationships that have both a type and a related entity.\<close>

definition rel_parts :: "relationship list \<Rightarrow> string list" where
  "rel_parts relationships =
     map (\<lambda>rel. get_str (rel_type rel) @ '' '' @ get_str (rel_related_entity rel))
       (filter (\<lambda>rel. get_str (rel_type rel) \<noteq> [] \<and> get_str (rel_related_entity rel) \<noteq> [])
          relationships)"

text \<open>The line of one match that passed the similarity test.\<close>

definition memory_line :: "memory_match \<Rightarrow> string" where
  "memory_line result =
     (let line = ''- '' @ get_str (mm_entity_name result) @ '' ('' @
                 get_str (mm_entity_type result) @ '')'';
          line = (case mm_relationships result of
                    None \<Rightarrow> line
                  | Some relationships \<Rightarrow>
                      if relationships \<noteq> [] \<and> rel_parts relationships \<noteq> []
                      then line @ '' | '' @ join '', '' (rel_parts relationships)
                      else line)
      in case mm_metadata result of
           None \<Rightarrow> line
         | Some metadata \<Rightarrow>
             (case (if metadata \<noteq> [] then map_of metadata ''description'' else None) of
                None \<Rightarrow> line
              | Some d \<Rightarrow> line @ '' - '' @ d))"

text \<open>
  One iteration of the loop of \<^verbatim>\<open>build_patient_memory_prompt_from_vector\<close>:
  \<^verbatim>\<open>continue\<close> when the similarity is below 0.7.
\<close>

definition memory_lines_step :: "string list \<Rightarrow> memory_match \<Rightarrow> string list" where
  "memory_lines_step memory_lines result =
     (if get_similarity result < 7 / 10 then memory_lines
      else memory_lines @ [memory_line result])"

definition memory_lines :: "memory_match list \<Rightarrow> string list" where
  "memory_lines search_results = foldl memory_lines_step [] search_results"

definition build_patient_memory_prompt_from_vector :: "memory_match list \<Rightarrow> string" where
  "build_patient_memory_prompt_from_vector search_results =
     (if search_results = [] then []
      else if memory_lines search_results = [] then []
      else newline @ newline @ ''Relevant Patient History (from previous conversations):''
           @ newline @ join newline (memory_lines search_results)
           @ newline @ newline @ ''Use this context when relevant to the current question.'')"

section \<open>Domain texts for embeddings: \<^verbatim>\<open>services/embedding_service.py\<close>\<close>

text \<open>
  \<^verbatim>\<open>generate_message_embedding\<close>: the content, then the snippets of the first three
  search results that have one.
\<close>

definition message_text :: "string \<Rightarrow> search_result list option \<Rightarrow> string" where
  "message_text content' search_results =
     (let snippets = (case search_results of
                        None \<Rightarrow> []
                      | Some rs \<Rightarrow> List.map_filter sr_snippet (take 3 rs));
          text_parts = [content'] @
            (if snippets \<noteq> [] then [''Context: '' @ join '' '' snippets] else [])
      in join ''. '' text_parts)"

definition generate_message_embedding ::
  "'v embedding_service \<Rightarrow> string \<Rightarrow> string \<Rightarrow> string list option
     \<Rightarrow> search_result list option \<Rightarrow> py_error + 'v option" where
  "generate_message_embedding svc content' role' citations search_results =
     generate_embedding svc (message_text content' search_results)"

text \<open>\<^verbatim>\<open>metadata[key]\<close> as a text part with its prefix, when the key is there.\<close>

definition metadata_part :: "(string \<times> string) list \<Rightarrow> string \<Rightarrow> string \<Rightarrow> string list" where
  "metadata_part metadata key prefix =
     (case map_of metadata key of None \<Rightarrow> [] | Some v \<Rightarrow> [prefix @ v])"

definition memory_text ::
  "string \<Rightarrow> string \<Rightarrow> relationship list option \<Rightarrow> (string \<times> string) list option \<Rightarrow> string" where
  "memory_text entity_name entity_type relationships metadata =
     (let rel_summaries = (case relationships of None \<Rightarrow> [] | Some rels \<Rightarrow> rel_parts rels);
          text_parts = [entity_type @ '': '' @ entity_name]
            @ (if rel_summaries \<noteq> [] then [''Relationships: '' @ join '', '' rel_summaries]
               else [])
            @ (case metadata of
                 None \<Rightarrow> []
               | Some md \<Rightarrow>
                   metadata_part md ''description'' ''Description: ''
                   @ metadata_part md ''severity'' ''Severity: ''
                   @ metadata_part md ''status'' ''Status: '')
      in join ''. '' text_parts)"

definition generate_patient_memory_embedding ::
  "'v embedding_service \<Rightarrow> string \<Rightarrow> string \<Rightarrow> relationship list option
     \<Rightarrow> (string \<times> string) list option \<Rightarrow> py_error + 'v option" where
  "generate_patient_memory_embedding svc entity_name entity_type relationships metadata =
     generate_embedding svc (memory_text entity_name entity_type relationships metadata)"

section \<open>Persistence with embeddings: \<^verbatim>\<open>services/db_operations.py\<close>\<close>

text \<open>
  The rows of the tables \<^verbatim>\<open>messages\<close>, \<^verbatim>\<open>patientMemory\<close> and \<^verbatim>\<open>conversations\<close>, and
  the database as the lists of its rows.  Times are natural numbers.
\<close>

record 'v message =
  msg_id :: string
  msg_conversation_id :: string
  msg_role :: string
  msg_content :: string
  msg_citations :: "string list option"
  msg_search_results :: "search_result list option"
  msg_content_embedding :: "'v option"
  msg_model :: "string option"
  msg_created_at :: nat

record 'v patient_memory =
  pm_id :: string
  pm_user_id :: string
  pm_entity_type :: string
  pm_entity_name :: string
  pm_relationships :: "relationship list option"
  pm_entity_metadata :: "(string \<times> string) list option"
  pm_content_embedding :: "'v option"
  pm_conversation_id :: "string option"
  pm_created_at :: nat
  pm_updated_at :: nat

record conversation =
  conv_id :: string
  conv_user_id :: "string option"
  conv_title :: string
  conv_is_guest :: bool
  conv_created_at :: nat
  conv_updated_at :: nat

record 'v database =
  messages_table :: "'v message list"
  patient_memory_table :: "'v patient_memory list"
  conversations_table :: "conversation list"

text \<open>
  What a call reads from outside: the result of \<^verbatim>\<open>get_embedding_service()\<close>, which
  raises when the service cannot be constructed, the identifier that \<^verbatim>\<open>generate_id\<close>
  draws, and the two readings of \<^verbatim>\<open>now_utc()\<close>.
\<close>

record 'v outside =
  embedding_service :: "py_error + 'v embedding_service"
  generated_id :: string
  now_first :: nat
  now_second :: nat

text \<open>
  The \<^verbatim>\<open>try\<close> block of \<^verbatim>\<open>create_message\<close>: every exception leaves
  \<^verbatim>\<open>content_embedding\<close> at \<^verbatim>\<open>None\<close>.
\<close>

definition message_embedding_attempt ::
  "'v outside \<Rightarrow> string \<Rightarrow> string \<Rightarrow> string list option \<Rightarrow> search_result list option
     \<Rightarrow> py_error + 'v option" where
  "message_embedding_attempt out role' content' citations search_results =
     (case embedding_service out of
        Inl e \<Rightarrow> Inl e
      | Inr svc \<Rightarrow> generate_message_embedding svc content' role' citations search_results)"

definition create_message ::
  "'v database \<Rightarrow> 'v outside \<Rightarrow> string \<Rightarrow> string \<Rightarrow> string \<Rightarrow> string list option
     \<Rightarrow> search_result list option \<Rightarrow> string option \<Rightarrow> bool
     \<Rightarrow> 'v database \<times> 'v message" where
  "create_message db out conversation_id role' content' citations search_results model' gen =
     (let content_embedding =
            (if gen \<and> content' \<noteq> [] \<and> strip content' \<noteq> []
             then (case message_embedding_attempt out role' content' citations search_results of
                     Inl e \<Rightarrow> None
                   | Inr r \<Rightarrow> r)
             else None);
          message = \<lparr>msg_id = generated_id out, msg_conversation_id = conversation_id,
                     msg_role = role', msg_content = content', msg_citations = citations,
                     msg_search_results = search_results,
                     msg_content_embedding = content_embedding, msg_model = model',
                     msg_created_at = now_first out\<rparr>
      in (db\<lparr>messages_table := messages_table db @ [message],
             conversations_table :=
               map (\<lambda>c. if conv_id c = conversation_id
                         then c\<lparr>conv_updated_at := now_second out\<rparr> else c)
                 (conversations_table db)\<rparr>,
          message))"

definition memory_embedding_attempt ::
  "'v outside \<Rightarrow> string \<Rightarrow> string \<Rightarrow> relationship list option
     \<Rightarrow> (string \<times> string) list option \<Rightarrow> py_error + 'v option" where
  "memory_embedding_attempt out entity_name entity_type relationships metadata =
     (case embedding_service out of
        Inl e \<Rightarrow> Inl e
      | Inr svc \<Rightarrow>
          generate_patient_memory_embedding svc entity_name entity_type relationships metadata)"

definition create_patient_memory ::
  "'v database \<Rightarrow> 'v outside \<Rightarrow> string \<Rightarrow> string \<Rightarrow> string \<Rightarrow> relationship list option
     \<Rightarrow> (string \<times> string) list option \<Rightarrow> string option \<Rightarrow> bool
     \<Rightarrow> 'v database \<times> 'v patient_memory" where
  "create_patient_memory db out user_id entity_type entity_name relationships metadata
       conversation_id gen =
     (let content_embedding =
            (if gen \<and> entity_name \<noteq> [] \<and> strip entity_name \<noteq> []
             then (case memory_embedding_attempt out entity_name entity_type relationships
                          metadata of
                     Inl e \<Rightarrow> None
                   | Inr r \<Rightarrow> r)
             else None);
          memory = \<lparr>pm_id = generated_id out, pm_user_id = user_id,
                    pm_entity_type = entity_type, pm_entity_name = entity_name,
                    pm_relationships = relationships, pm_entity_metadata = metadata,
                    pm_content_embedding = content_embedding,
                    pm_conversation_id = conversation_id,
                    pm_created_at = now_first out, pm_updated_at = now_second out\<rparr>
      in (db\<lparr>patient_memory_table := patient_memory_table db @ [memory]\<rparr>, memory))"

section \<open>Similarity search: \<^verbatim>\<open>services/db_operations.py\<close> and \<^verbatim>\<open>routes/vector_search.py\<close>\<close>

text \<open>A JSON value of a request body, with Python's truth value of it.\<close>

datatype json = JNull | JBool bool | JNum real | JStr string
  | JArr "json list" | JObj "(string \<times> json) list"

fun truthy :: "json \<Rightarrow> bool" where
  "truthy JNull = False"
| "truthy (JBool b) = b"
| "truthy (JNum r) = (r \<noteq> 0)"
| "truthy (JStr s) = (s \<noteq> [])"
| "truthy (JArr xs) = (xs \<noteq> [])"
| "truthy (JObj kv) = (kv \<noteq> [])"

text \<open>\<^verbatim>\<open>data.get(key, default)\<close>\<close>

definition dict_get :: "(string \<times> json) list \<Rightarrow> string \<Rightarrow> json \<Rightarrow> json" where
  "dict_get kv key default' = (case map_of kv key of None \<Rightarrow> default' | Some v \<Rightarrow> v)"

text \<open>
  The chained comparison \<^verbatim>\<open>lo <= v <= hi\<close> with numbers \<open>lo\<close> and \<open>hi\<close>: a number or
  a boolean compares, anything else raises TypeError.
\<close>

fun json_number :: "json \<Rightarrow> real option" where
  "json_number (JNum r) = Some r"
| "json_number (JBool b) = Some (if b then 1 else 0)"
| "json_number v = None"

definition between :: "real \<Rightarrow> json \<Rightarrow> real \<Rightarrow> py_error + bool" where
  "between lo v hi =
     (case json_number v of
        None \<Rightarrow> Inl TypeError
      | Some r \<Rightarrow> Inr (lo \<le> r \<and> r \<le> hi))"

text \<open>
  \<^verbatim>\<open>generate_embedding\<close> on the query of a request: a value that is not a string has
  no \<^verbatim>\<open>strip\<close>, so a true one raises AttributeError and a false one ValueError.
\<close>

definition embed_query :: "'v embedding_service \<Rightarrow> json \<Rightarrow> py_error + 'v option" where
  "embed_query svc query_text =
     (case query_text of
        JStr s \<Rightarrow> generate_embedding svc s
      | _ \<Rightarrow> if truthy query_text then Inl AttributeError else Inl ValueError)"

text \<open>
  The parameters bound into the SQL call of the external index, for memories
  (\<open>sq_scope\<close> is the user) and for messages (\<open>sq_scope\<close> is the conversation), and the
  rows it returns.
\<close>

record 'v search_query =
  sq_embedding :: "'v option"
  sq_scope :: json
  sq_match_threshold :: json
  sq_match_count :: json

record memory_row =
  mr_id :: string
  mr_user_id :: string
  mr_entity_type :: string
  mr_entity_name :: string
  mr_relationships :: "relationship list option"
  mr_metadata :: "(string \<times> string) list option"
  mr_conversation_id :: "string option"
  mr_similarity :: real

record message_row =
  wr_id :: string
  wr_conversation_id :: string
  wr_role :: string
  wr_content :: string
  wr_citations :: "string list option"
  wr_search_results :: "search_result list option"
  wr_model :: "string option"
  wr_created_at :: "nat option"
  wr_similarity :: real

record message_match =
  wm_id :: string
  wm_conversation_id :: string
  wm_role :: string
  wm_content :: string
  wm_citations :: "string list option"
  wm_search_results :: "search_result list option"
  wm_model :: "string option"
  wm_created_at :: "string option"
  wm_similarity :: real

definition memory_row_dict :: "memory_row \<Rightarrow> memory_match" where
  "memory_row_dict row =
     \<lparr>mm_id = mr_id row, mm_user_id = mr_user_id row,
      mm_entity_type = Some (mr_entity_type row), mm_entity_name = Some (mr_entity_name row),
      mm_relationships = mr_relationships row, mm_metadata = mr_metadata row,
      mm_conversation_id = mr_conversation_id row, mm_similarity = Some (mr_similarity row)\<rparr>"

definition message_row_dict :: "(nat \<Rightarrow> string) \<Rightarrow> message_row \<Rightarrow> message_match" where
  "message_row_dict isoformat row =
     \<lparr>wm_id = wr_id row, wm_conversation_id = wr_conversation_id row, wm_role = wr_role row,
      wm_content = wr_content row, wm_citations = wr_citations row,
      wm_search_results = wr_search_results row, wm_model = wr_model row,
      wm_created_at = map_option isoformat (wr_created_at row),
      wm_similarity = wr_similarity row\<rparr>"

text \<open>
  The body of the \<^verbatim>\<open>try\<close> of \<^verbatim>\<open>search_similar_patient_memories\<close>: the service, the
  embedding of the query, the call \<open>db_execute\<close> of the external index, the rows as
  dictionaries.  The function itself returns the empty list on every exception.
\<close>

definition search_memories_try ::
  "(py_error + 'v embedding_service) \<Rightarrow> ('v search_query \<Rightarrow> py_error + memory_row list)
     \<Rightarrow> json \<Rightarrow> json \<Rightarrow> json \<Rightarrow> json \<Rightarrow> py_error + memory_match list" where
  "search_memories_try service db_execute query_text user_id match_threshold match_count =
     (case service of
        Inl e \<Rightarrow> Inl e
      | Inr svc \<Rightarrow>
          (case embed_query svc query_text of
             Inl e \<Rightarrow> Inl e
           | Inr query_embedding \<Rightarrow>
               (case db_execute \<lparr>sq_embedding = query_embedding, sq_scope = user_id,
                                 sq_match_threshold = match_threshold,
                                 sq_match_count = match_count\<rparr> of
                  Inl e \<Rightarrow> Inl e
                | Inr rows \<Rightarrow> Inr (map memory_row_dict rows))))"

definition search_similar_patient_memories ::
  "(py_error + 'v embedding_service) \<Rightarrow> ('v search_query \<Rightarrow> py_error + memory_row list)
     \<Rightarrow> json \<Rightarrow> json \<Rightarrow> json \<Rightarrow> json \<Rightarrow> memory_match list" where
  "search_similar_patient_memories service db_execute query_text user_id match_threshold
       match_count =
     (case search_memories_try service db_execute query_text user_id match_threshold
             match_count of
        Inl e \<Rightarrow> []
      | Inr memories \<Rightarrow> memories)"

definition search_messages_try ::
  "(py_error + 'v embedding_service) \<Rightarrow> ('v search_query \<Rightarrow> py_error + message_row list)
     \<Rightarrow> (nat \<Rightarrow> string) \<Rightarrow> json \<Rightarrow> json \<Rightarrow> json \<Rightarrow> json \<Rightarrow> py_error + message_match list" where
  "search_messages_try service db_execute isoformat query_text conversation_id
       match_threshold match_count =
     (case service of
        Inl e \<Rightarrow> Inl e
      | Inr svc \<Rightarrow>
          (case embed_query svc query_text of
             Inl e \<Rightarrow> Inl e
           | Inr query_embedding \<Rightarrow>
               (case db_execute \<lparr>sq_embedding = query_embedding, sq_scope = conversation_id,
                                 sq_match_threshold = match_threshold,
                                 sq_match_count = match_count\<rparr> of
                  Inl e \<Rightarrow> Inl e
                | Inr rows \<Rightarrow> Inr (map (message_row_dict isoformat) rows))))"

definition search_similar_messages ::
  "(py_error + 'v embedding_service) \<Rightarrow> ('v search_query \<Rightarrow> py_error + message_row list)
     \<Rightarrow> (nat \<Rightarrow> string) \<Rightarrow> json \<Rightarrow> json \<Rightarrow> json \<Rightarrow> json \<Rightarrow> message_match list" where
  "search_similar_messages service db_execute isoformat query_text conversation_id
       match_threshold match_count =
     (case search_messages_try service db_execute isoformat query_text conversation_id
             match_threshold match_count of
        Inl e \<Rightarrow> []
      | Inr found \<Rightarrow> found)"

subsection \<open>The two search endpoints\<close>

text \<open>
  A delegation is the list of arguments handed to the search function: query, scope
  (user or conversation), threshold and count.  The answer of an endpoint carries the HTTP
  status, the results on success, and the delegations made while handling the request.
\<close>

record delegation =
  dg_query :: json
  dg_scope :: json
  dg_match_threshold :: json
  dg_match_count :: json

record 'r answer =
  status :: nat
  results :: "'r list"
  delegations :: "delegation list"

definition fail :: "nat \<Rightarrow> 'r answer" where
  "fail code = \<lparr>status = code, results = [], delegations = []\<rparr>"

text \<open>
  \<^verbatim>\<open>search_memories(user)\<close>.  A body that is not an object has no \<^verbatim>\<open>get\<close>:
  AttributeError, caught by the handler, status 500, as for the TypeError of a
  comparison.  The scope of the search is the identifier of the authenticated user.
\<close>

definition search_memories ::
  "(json \<Rightarrow> json \<Rightarrow> json \<Rightarrow> json \<Rightarrow> 'r list) \<Rightarrow> string \<Rightarrow> json \<Rightarrow> 'r answer" where
  "search_memories search user_id data =
     (case data of
        JObj kv \<Rightarrow>
          (let query = dict_get kv ''query'' JNull
           in if \<not> truthy query then fail 400
              else
                (let match_threshold = dict_get kv ''match_threshold'' (JNum (7 / 10));
                     match_count = dict_get kv ''match_count'' (JNum 5)
                 in case between 0 match_threshold 1 of
                      Inl e \<Rightarrow> fail 500
                    | Inr threshold_ok \<Rightarrow>
                        if \<not> threshold_ok then fail 400
                        else
                          (case between 1 match_count 50 of
                             Inl e \<Rightarrow> fail 500
                           | Inr count_ok \<Rightarrow>
                               if \<not> count_ok then fail 400
                               else \<lparr>status = 200,
                                     results = search query (JStr user_id) match_threshold
                                                 match_count,
                                     delegations =
                                       [\<lparr>dg_query = query, dg_scope = JStr user_id,
                                         dg_match_threshold = match_threshold,
                                         dg_match_count = match_count\<rparr>]\<rparr>)))
      | _ \<Rightarrow> fail 500)"

text \<open>
  \<^verbatim>\<open>search_messages_endpoint(user)\<close>: the scope is \<^verbatim>\<open>data.get('conversation_id')\<close>, the
  count defaults to 10 and is at most 100.
\<close>

definition search_messages_endpoint ::
  "(json \<Rightarrow> json \<Rightarrow> json \<Rightarrow> json \<Rightarrow> 'r list) \<Rightarrow> json \<Rightarrow> 'r answer" where
  "search_messages_endpoint search data =
     (case data of
        JObj kv \<Rightarrow>
          (let query = dict_get kv ''query'' JNull
           in if \<not> truthy query then fail 400
              else
                (let conversation_id = dict_get kv ''conversation_id'' JNull;
                     match_threshold = dict_get kv ''match_threshold'' (JNum (7 / 10));
                     match_count = dict_get kv ''match_count'' (JNum 10)
                 in case between 0 match_threshold 1 of
                      Inl e \<Rightarrow> fail 500
                    | Inr threshold_ok \<Rightarrow>
                        if \<not> threshold_ok then fail 400
                        else
                          (case between 1 match_count 100 of
                             Inl e \<Rightarrow> fail 500
                           | Inr count_ok \<Rightarrow>
                               if \<not> count_ok then fail 400
                               else \<lparr>status = 200,
                                     results = search query conversation_id match_threshold
                                                 match_count,
                                     delegations =
                                       [\<lparr>dg_query = query, dg_scope = conversation_id,
                                         dg_match_threshold = match_threshold,
                                         dg_match_count = match_count\<rparr>]\<rparr>)))
      | _ \<Rightarrow> fail 500)"

section \<open>Sample collaborators\<close>

text \<open>
  Collaborators for concrete runs.  The vector of a text is its length, so that a result
  shows how much text the provider received.  \<open>length_model\<close> and \<open>length_client\<close>
  never fail; \<open>picky_model\<close> raises on the text \<^verbatim>\<open>bad\<close>, alone or in a batch.
\<close>

definition length_model :: "nat sentence_transformer" where
  "length_model =
     \<lparr>encode = (\<lambda>s. Inr (length s)), encode_batch = (\<lambda>ts. Inr (map length ts))\<rparr>"

definition length_client :: "nat openai_client" where
  "length_client =
     \<lparr>embeddings_create = (\<lambda>s. Inr [length s]),
      embeddings_create_batch = (\<lambda>ts. Inr (map length ts))\<rparr>"

definition picky_model :: "nat sentence_transformer" where
  "picky_model =
     \<lparr>encode = (\<lambda>s. if s = ''bad'' then Inl ProviderError else Inr (length s)),
      encode_batch =
        (\<lambda>ts. if ''bad'' \<in> set ts then Inl ProviderError else Inr (map length ts))\<rparr>"



text \<open>
  An outside where the embedding service cannot be constructed, one whose OpenAI client
  is down, an empty database, and a row that the external index could return.
\<close>

definition failing_outside :: "nat outside" where
  "failing_outside =
     \<lparr>embedding_service = Inl RuntimeError, generated_id = ''id1'', now_first = 10,
      now_second = 11\<rparr>"

definition down_client :: "nat openai_client" where
  "down_client =
     \<lparr>embeddings_create = (\<lambda>s. Inl ProviderError),
      embeddings_create_batch = (\<lambda>ts. Inl ProviderError)\<rparr>"

definition down_outside :: "nat outside" where
  "down_outside =
     \<lparr>embedding_service = Inr (openai_service down_client), generated_id = ''id1'',
      now_first = 10, now_second = 11\<rparr>"

definition empty_db :: "nat database" where
  "empty_db = \<lparr>messages_table = [], patient_memory_table = [], conversations_table = []\<rparr>"

definition sample_memory_row :: memory_row where
  "sample_memory_row =
     \<lparr>mr_id = ''mem1'', mr_user_id = ''u1'', mr_entity_type = ''condition'',
      mr_entity_name = ''flu'', mr_relationships = None, mr_metadata = None,
      mr_conversation_id = None, mr_similarity = 9 / 10\<rparr>"

section \<open>Properties of the normalisation\<close>

lemma validated_messages_ensure_alternating:
  "ensure_alternating (final_messages sp ms) = Inr (validated_messages sp ms)"
  by (simp add: ensure_alternating_def final_messages_def validated_messages_def)

lemma role_append_content [simp]: "role (append_content m c) = role m"
  by (simp add: append_content_def)

lemma validate_step_nonempty: "validate_step acc m \<noteq> []"
  by (simp add: validate_step_def)

lemma validate_step_hd:
  assumes "acc \<noteq> []"
  shows "role (hd (validate_step acc m)) = role (hd acc)"
proof (cases acc rule: rev_cases)
  case Nil
  with assms show ?thesis by simp
next
  case (snoc ys y)
  then show ?thesis
    by (cases ys) (simp_all add: validate_step_def)
qed

lemma validate_step_distinct_adj:
  assumes "acc \<noteq> []" and "distinct_adj (map role acc)"
  shows "distinct_adj (map role (validate_step acc m))"
proof (cases acc rule: rev_cases)
  case Nil
  with assms show ?thesis by simp
next
  case (snoc ys y)
  with assms show ?thesis
    by (auto simp: validate_step_def distinct_adj_append_iff)
qed

lemma foldl_validate_step_normalized_form:
  "normalized_form acc \<Longrightarrow> normalized_form (foldl validate_step acc ms)"
proof (induction ms arbitrary: acc)
  case Nil
  then show ?case by simp
next
  case (Cons m ms)
  from Cons.prems have "normalized_form (validate_step acc m)"
    by (simp add: normalized_form_def validate_step_nonempty validate_step_hd
        validate_step_distinct_adj)
  then show ?case
    using Cons.IH by simp
qed

text \<open>
  Claim C1.  Whatever the message list and the system prompt, the sequence that
  \<^verbatim>\<open>call_perplexity\<close> hands to the model is not empty, starts with a system entry and
  has no two adjacent entries of the same role.  This holds in particular for the list
  that the chat route builds from a history and a new user text.
\<close>

theorem validated_messages_normalized_form:
  "normalized_form (validated_messages sp messages) \<and>
   normalized_form
     (validated_messages sp (messages_for_api (build_session_context history n) text))"
proof -
  have "normalized_form (validated_messages sp ms)" for ms
    unfolding validated_messages_def
    by (rule foldl_validate_step_normalized_form) (simp add: normalized_form_def)
  then show ?thesis by simp
qed

lemma distinct_adj_snoc_last:
  "distinct_adj (map role (acc @ x # xs)) \<Longrightarrow> acc \<noteq> [] \<Longrightarrow> role (last acc) \<noteq> role x"
  by (auto simp: distinct_adj_append_iff last_map)

lemma foldl_normalize_step_id:
  "distinct_adj (map role (acc @ xs)) \<Longrightarrow> foldl normalize_step acc xs = acc @ xs"
proof (induction xs arbitrary: acc)
  case Nil
  then show ?case by simp
next
  case (Cons x xs)
  have "normalize_step acc x = acc @ [x]"
    using distinct_adj_snoc_last [OF Cons.prems] by (auto simp: normalize_step_def)
  moreover have "foldl normalize_step (acc @ [x]) xs = (acc @ [x]) @ xs"
    using Cons.prems by (intro Cons.IH) simp
  ultimately show ?case by simp
qed

lemma foldl_validate_step_id:
  "acc \<noteq> [] \<Longrightarrow> distinct_adj (map role (acc @ xs))
     \<Longrightarrow> foldl validate_step acc xs = acc @ xs"
proof (induction xs arbitrary: acc)
  case Nil
  then show ?case by simp
next
  case (Cons x xs)
  have "validate_step acc x = acc @ [x]"
    using distinct_adj_snoc_last [OF Cons.prems(2) Cons.prems(1)]
    by (simp add: validate_step_def)
  moreover have "foldl validate_step (acc @ [x]) xs = (acc @ [x]) @ xs"
    using Cons.prems by (intro Cons.IH) simp_all
  ultimately show ?case by simp
qed

text \<open>
  The second loop alone leaves every sequence in normalised form as it is.
\<close>

lemma ensure_alternating_normalized_form:
  assumes "normalized_form ms"
  shows "ensure_alternating ms = Inr ms"
proof (cases ms)
  case Nil
  with assms show ?thesis by (simp add: normalized_form_def)
next
  case (Cons m rest)
  with assms have "foldl validate_step [m] rest = [m] @ rest"
    by (intro foldl_validate_step_id) (auto simp: normalized_form_def)
  with Cons show ?thesis by (simp add: ensure_alternating_def)
qed

text \<open>
  Claim C3, as stated, fails.  The sequence system, user, system, user has a leading
  system entry and no two adjacent entries of equal role; normalising it again with its
  own system prompt drops the inner system entry and merges the two user entries.
\<close>

theorem normalized_form_not_fixed:
  "normalized_form
     [\<lparr>role = ''system'', content = ''p''\<rparr>, \<lparr>role = ''user'', content = ''a''\<rparr>,
      \<lparr>role = ''system'', content = ''q''\<rparr>, \<lparr>role = ''user'', content = ''b''\<rparr>] \<and>
   validated_messages ''p''
     [\<lparr>role = ''system'', content = ''p''\<rparr>, \<lparr>role = ''user'', content = ''a''\<rparr>,
      \<lparr>role = ''system'', content = ''q''\<rparr>, \<lparr>role = ''user'', content = ''b''\<rparr>]
   = [\<lparr>role = ''system'', content = ''p''\<rparr>,
      \<lparr>role = ''user'', content = ''a'' @ newline @ ''b''\<rparr>] \<and>
   validated_messages ''p''
     [\<lparr>role = ''system'', content = ''p''\<rparr>, \<lparr>role = ''user'', content = ''a''\<rparr>,
      \<lparr>role = ''system'', content = ''q''\<rparr>, \<lparr>role = ''user'', content = ''b''\<rparr>]
   \<noteq> [\<lparr>role = ''system'', content = ''p''\<rparr>, \<lparr>role = ''user'', content = ''a''\<rparr>,
      \<lparr>role = ''system'', content = ''q''\<rparr>, \<lparr>role = ''user'', content = ''b''\<rparr>]"
  by (simp add: normalized_form_def validated_messages_def normalized_def
      normalize_step_def validate_step_def append_content_def)

lemma validate_step_keeps_head:
  assumes "acc = h # t" and "role x \<noteq> role h" and "\<forall>y \<in> set t. role y \<noteq> role h"
  shows "\<exists>t'. validate_step acc x = h # t' \<and> (\<forall>y \<in> set t'. role y \<noteq> role h)"
proof (cases t rule: rev_cases)
  case Nil
  with assms show ?thesis by (simp add: validate_step_def)
next
  case (snoc ys y)
  with assms show ?thesis by (auto simp: validate_step_def)
qed

lemma foldl_validate_step_keeps_head:
  "\<forall>x \<in> set xs. role x \<noteq> role h \<Longrightarrow> \<forall>y \<in> set t. role y \<noteq> role h
     \<Longrightarrow> \<exists>t'. foldl validate_step (h # t) xs = h # t' \<and> (\<forall>y \<in> set t'. role y \<noteq> role h)"
proof (induction xs arbitrary: t)
  case Nil
  then show ?case by simp
next
  case (Cons x xs)
  from Cons.prems obtain t' where
    t': "validate_step (h # t) x = h # t'" "\<forall>y \<in> set t'. role y \<noteq> role h"
    using validate_step_keeps_head [of "h # t" h t x] by auto
  from Cons.IH [OF _ t'(2)] Cons.prems(1) t'(1) show ?case by simp
qed

lemma validated_messages_unchanged:
  assumes "role m = ''system''"
    and "\<forall>x \<in> set rest. role x \<noteq> ''system''"
    and "distinct_adj (map role (m # rest))"
  shows "validated_messages (content m) (m # rest) = m # rest"
proof -
  have n: "normalized (m # rest) = m # rest"
    unfolding normalized_def
    using foldl_normalize_step_id [of "[]" "m # rest"] assms(3) by simp
  have f: "filter (\<lambda>x. role x \<noteq> ''system'') (m # rest) = rest"
    using assms(1,2) by (simp add: filter_id_conv)
  have m: "\<lparr>role = ''system'', content = content m\<rparr> = m"
    using assms(1) by simp
  show ?thesis
    unfolding validated_messages_def n f m
    using foldl_validate_step_id [of "[m]" rest] assms(3) by simp
qed

text \<open>
  The normalisation is idempotent on its own results: normalising the result of a
  normalisation again, with the same system prompt, changes nothing.
\<close>

lemma validated_messages_idempotent:
  "validated_messages sp (validated_messages sp ms) = validated_messages sp ms"
proof -
  let ?s = "\<lparr>role = ''system'', content = sp\<rparr>"
  let ?xs = "filter (\<lambda>m. role m \<noteq> ''system'') (normalized ms)"
  have "\<forall>x \<in> set ?xs. role x \<noteq> role ?s" by simp
  then obtain t' where t': "foldl validate_step (?s # []) ?xs = ?s # t'"
      "\<forall>y \<in> set t'. role y \<noteq> role ?s"
    using foldl_validate_step_keeps_head [of ?xs ?s "[]"] by auto
  then have out: "validated_messages sp ms = ?s # t'"
    by (simp add: validated_messages_def)
  have "normalized_form (validated_messages sp ms)"
    unfolding validated_messages_def
    by (rule foldl_validate_step_normalized_form) (simp add: normalized_form_def)
  then have d: "distinct_adj (map role (?s # t'))"
    by (simp add: out normalized_form_def)
  have "validated_messages (content ?s) (?s # t') = ?s # t'"
    using t'(2) d by (intro validated_messages_unchanged) simp_all
  then show ?thesis by (simp add: out)
qed

text \<open>
  Claim C3, amended.  A sequence whose first entry is a system entry, which has no other
  system entry and no two adjacent entries of equal role, is returned unchanged when it
  is normalised with the content of its first entry as system prompt.
\<close>

theorem validated_messages_fixed_point:
  assumes "role m = ''system''"
    and "\<forall>x \<in> set rest. role x \<noteq> ''system''"
    and "distinct_adj (map role (m # rest))"
  shows "validated_messages (content m) (m # rest) = m # rest"
  using assms by (rule validated_messages_unchanged)

theorem validated_messages_fixed_point_witness:
  "validated_messages ''p''
     [\<lparr>role = ''system'', content = ''p''\<rparr>, \<lparr>role = ''user'', content = ''a''\<rparr>,
      \<lparr>role = ''assistant'', content = ''q''\<rparr>, \<lparr>role = ''user'', content = ''b''\<rparr>]
   = [\<lparr>role = ''system'', content = ''p''\<rparr>, \<lparr>role = ''user'', content = ''a''\<rparr>,
      \<lparr>role = ''assistant'', content = ''q''\<rparr>, \<lparr>role = ''user'', content = ''b''\<rparr>]"
  using validated_messages_fixed_point
    [of "\<lparr>role = ''system'', content = ''p''\<rparr>"
        "[\<lparr>role = ''user'', content = ''a''\<rparr>, \<lparr>role = ''assistant'', content = ''q''\<rparr>,
          \<lparr>role = ''user'', content = ''b''\<rparr>]"]
  by simp

section \<open>Properties of the embedding service\<close>

lemma py_isspace_x [simp]: "\<not> py_isspace CHR ''x''"
  by (simp add: py_isspace_def)

lemma strip_replicate_x [simp]: "strip (replicate n CHR ''x'') = replicate n CHR ''x''"
  by (simp add: strip_def strip_chars_def dropWhile_replicate)

lemma strip_Nil [simp]: "strip [] = []"
  by (simp add: strip_def strip_chars_def)

text \<open>
  Claim C2, as stated, fails in LOCAL mode.  The maximum there is 512 * 4 = 2048
  characters, and a text of 2049 characters reaches the model whole: the model that
  answers with the length of what it receives answers 2049.
\<close>

theorem generate_embedding_local_not_truncated:
  "max_tokens (local_service length_model) * 4 = 2048 \<and>
   generate_embedding (local_service length_model) (replicate 2049 CHR ''x'')
     = Inr (Some 2049)"
  by (simp add: generate_embedding_def generate_local_def local_service_def length_model_def)

text \<open>
  Claim C2, amended.  For every text that is not blank: in OPENAI mode the client
  receives the prefix of at most 8191 * 4 = 32764 characters of the text, and the result
  is the first vector of its answer (absent when the call fails); in LOCAL mode the model
  receives the text as it is, without truncation.
\<close>

theorem generate_embedding_truncation:
  assumes "strip text \<noteq> []"
  shows "generate_embedding (openai_service c) text =
           Inr (case embeddings_create c (take 32764 text) of
                  Inl e \<Rightarrow> None | Inr [] \<Rightarrow> None | Inr (d # _) \<Rightarrow> Some d) \<and>
         generate_embedding (local_service m) text =
           Inr (case encode m text of Inl e \<Rightarrow> None | Inr v \<Rightarrow> Some v)"
proof -
  from assms have t: "text \<noteq> []" by auto
  have "generate_embedding (openai_service c) text =
           Inr (case embeddings_create c (take 32764 text) of
                  Inl e \<Rightarrow> None | Inr [] \<Rightarrow> None | Inr (d # _) \<Rightarrow> Some d)"
    using assms t
    by (simp add: generate_embedding_def generate_openai_def openai_service_def
        split: sum.splits list.splits)
  moreover have "generate_embedding (local_service m) text =
           Inr (case encode m text of Inl e \<Rightarrow> None | Inr v \<Rightarrow> Some v)"
    using assms t
    by (simp add: generate_embedding_def generate_local_def local_service_def
        split: sum.splits)
  ultimately show ?thesis by simp
qed

theorem generate_embedding_truncation_witness:
  "generate_embedding (openai_service length_client) (replicate 32765 CHR ''x'')
     = Inr (Some 32764) \<and>
   generate_embedding (local_service length_model) (replicate 32765 CHR ''x'')
     = Inr (Some 32765)"
  using generate_embedding_truncation
    [of "replicate 32765 CHR ''x''" length_client length_model]
  by (simp add: length_client_def length_model_def)

text \<open>
  Claim C7, as stated, fails twice.  The empty list gives no sequence but ValueError.
  And a failure aborts the batch: with a provider that raises on the text \<^verbatim>\<open>bad\<close>, the
  text \<^verbatim>\<open>good\<close> has an embedding on its own, yet in one batch with \<^verbatim>\<open>bad\<close> its
  entry is absent too.
\<close>

theorem generate_embeddings_batch_aborts:
  "generate_embeddings_batch (local_service picky_model) [] = Inl ValueError \<and>
   generate_embedding (local_service picky_model) ''good'' = Inr (Some 4) \<and>
   generate_embeddings_batch (local_service picky_model) [''good'', ''bad'']
     = Inr [None, None]"
  by (simp add: generate_embeddings_batch_def generate_batch_local_def
      generate_embedding_def generate_local_def local_service_def picky_model_def
      strip_def strip_chars_def py_isspace_def)

text \<open>
  Claim C7, amended.  The empty list raises ValueError.  For a list that is not empty the
  batch is all or nothing: when the provider call of the mode raises, the result has the
  length of the input and every entry is absent; when it returns vectors, the result is
  these vectors in the provider's order, none absent.
\<close>

theorem generate_embeddings_batch_all_or_nothing:
  "generate_embeddings_batch svc [] = Inl ValueError \<and>
   (texts \<noteq> [] \<and> mode svc = LOCAL \<longrightarrow>
     (\<forall>e. generate_batch_local svc texts = Inl e \<longrightarrow>
        generate_embeddings_batch svc texts = Inr (replicate (length texts) None)) \<and>
     (\<forall>vs. generate_batch_local svc texts = Inr vs \<longrightarrow>
        generate_embeddings_batch svc texts = Inr (map Some vs))) \<and>
   (texts \<noteq> [] \<and> mode svc = OPENAI \<longrightarrow>
     (\<forall>e. generate_batch_openai svc texts = Inl e \<longrightarrow>
        generate_embeddings_batch svc texts = Inr (replicate (length texts) None)) \<and>
     (\<forall>vs. generate_batch_openai svc texts = Inr vs \<longrightarrow>
        generate_embeddings_batch svc texts = Inr (map Some vs)))"
  by (simp add: generate_embeddings_batch_def)

theorem generate_embeddings_batch_all_or_nothing_witness:
  "generate_embeddings_batch (local_service picky_model) [''good'', ''bad'']
     = Inr [None, None] \<and>
   generate_embeddings_batch (local_service picky_model) [''good'', ''fine'']
     = Inr [Some 4, Some 4]"
proof -
  have 1: "generate_batch_local (local_service picky_model) [''good'', ''bad'']
             = Inl ProviderError"
    by (simp add: generate_batch_local_def local_service_def picky_model_def
        strip_def strip_chars_def py_isspace_def)
  have 2: "generate_batch_local (local_service picky_model) [''good'', ''fine'']
             = Inr [4, 4]"
    by (simp add: generate_batch_local_def local_service_def picky_model_def
        strip_def strip_chars_def py_isspace_def)
  have m: "mode (local_service picky_model) = LOCAL"
    by (simp add: local_service_def)
  show ?thesis
    using generate_embeddings_batch_all_or_nothing
            [of "local_service picky_model" "[''good'', ''bad'']"]
          generate_embeddings_batch_all_or_nothing
            [of "local_service picky_model" "[''good'', ''fine'']"]
          1 2 m
    by simp
qed

subsection \<open>Vector serialisation\<close>











section \<open>Properties of the response and context assembly\<close>

lemma foldl_memory_lines_step:
  "foldl memory_lines_step acc rs =
     acc @ map memory_line (filter (\<lambda>r. 7 / 10 \<le> get_similarity r) rs)"
  by (induction rs arbitrary: acc) (simp_all add: memory_lines_step_def not_less)

text \<open>
  Claim C6.  The lines of the prompt fragment are the lines of exactly the matches with
  similarity at least 0.7 (an absent similarity counts as 0), in the order of the input;
  the fragment is empty when there is no such match, and otherwise the heading, these
  lines joined by newlines, and the closing sentence.
\<close>

theorem memory_prompt_filter:
  "memory_lines rs = map memory_line (filter (\<lambda>r. 7 / 10 \<le> get_similarity r) rs) \<and>
   build_patient_memory_prompt_from_vector rs =
     (if filter (\<lambda>r. 7 / 10 \<le> get_similarity r) rs = [] then []
      else newline @ newline @ ''Relevant Patient History (from previous conversations):''
           @ newline
           @ join newline (map memory_line (filter (\<lambda>r. 7 / 10 \<le> get_similarity r) rs))
           @ newline @ newline @ ''Use this context when relevant to the current question.'')"
proof -
  have m: "memory_lines rs = map memory_line (filter (\<lambda>r. 7 / 10 \<le> get_similarity r) rs)"
    by (simp add: memory_lines_def foldl_memory_lines_step)
  show ?thesis
    by (auto simp add: m build_patient_memory_prompt_from_vector_def)
qed

lemma search_results_step_eq:
  "search_results_step acc r =
     (if strip (get_str (sr_title r)) \<noteq> [] \<and> strip (get_str (sr_url r)) \<noteq> []
      then acc @ [\<lparr>sr_title = Some (get_str (sr_title r)), sr_url = Some (get_str (sr_url r)),
                     sr_snippet = Some (get_str (sr_snippet r)), sr_date = sr_date r\<rparr>]
      else acc)"
  by (auto simp add: search_results_step_def Let_def)

lemma foldl_search_results_step:
  "foldl search_results_step acc raw =
     acc @ map (\<lambda>r. \<lparr>sr_title = Some (get_str (sr_title r)),
                      sr_url = Some (get_str (sr_url r)),
                      sr_snippet = Some (get_str (sr_snippet r)), sr_date = sr_date r\<rparr>)
             (filter (\<lambda>r. strip (get_str (sr_title r)) \<noteq> [] \<and>
                          strip (get_str (sr_url r)) \<noteq> []) raw)"
  (is "_ = acc @ map ?f (filter ?P raw)")
proof (induction raw arbitrary: acc)
  case Nil
  then show ?case by simp
next
  case (Cons r raw)
  have "foldl search_results_step acc (r # raw)
          = search_results_step acc r @ map ?f (filter ?P raw)"
    by (simp only: foldl_Cons Cons.IH)
  also have "\<dots> = acc @ map ?f (filter ?P (r # raw))"
    by (simp add: search_results_step_eq)
  finally show ?case .
qed

text \<open>
  Claim C8.  The returned search results are exactly the entries of the response whose
  title and url are both not empty after stripping whitespace (an absent one counts as
  empty), in the order of the response, each with its title, url, snippet (empty when
  absent) and date.
\<close>

theorem extract_search_results_filter:
  "extract_search_results raw =
     map (\<lambda>r. \<lparr>sr_title = Some (get_str (sr_title r)), sr_url = Some (get_str (sr_url r)),
               sr_snippet = Some (get_str (sr_snippet r)), sr_date = sr_date r\<rparr>)
       (filter (\<lambda>r. strip (get_str (sr_title r)) \<noteq> [] \<and> strip (get_str (sr_url r)) \<noteq> [])
          raw)"
  by (simp add: extract_search_results_def foldl_search_results_step)

text \<open>The scenario of the specification: the entry with the empty title is dropped.\<close>

lemma extract_search_results_scenario:
  "extract_search_results
     [\<lparr>sr_title = Some [], sr_url = Some ''http://x'', sr_snippet = None, sr_date = None\<rparr>,
      \<lparr>sr_title = Some ''A'', sr_url = Some ''http://y'', sr_snippet = Some ''s'',
        sr_date = None\<rparr>]
   = [\<lparr>sr_title = Some ''A'', sr_url = Some ''http://y'', sr_snippet = Some ''s'',
        sr_date = None\<rparr>]"
  by (simp add: extract_search_results_def search_results_step_def get_str_def strip_def
      strip_chars_def py_isspace_def)

section \<open>Properties of the similarity search\<close>

lemma fail_simps [simp]:
  "status (fail code :: 'r answer) = code"
  "results (fail code :: 'r answer) = []"
  "delegations (fail code :: 'r answer) = []"
  by (simp_all add: fail_def)




text \<open>Whatever the request, an endpoint that delegated to the search answers with 200.\<close>

lemma search_memories_delegates_only_valid:
  "delegations (search_memories search user_id data) \<noteq> [] \<Longrightarrow>
     status (search_memories search user_id data) = 200"
  by (auto simp add: search_memories_def Let_def split: json.splits sum.splits if_splits)

lemma search_messages_delegates_only_valid:
  "delegations (search_messages_endpoint search data) \<noteq> [] \<Longrightarrow>
     status (search_messages_endpoint search data) = 200"
  by (auto simp add: search_messages_endpoint_def Let_def
      split: json.splits sum.splits if_splits)

text \<open>
  Claim C5.  When the embedding service cannot be had, or the embedding of the query
  raises, or the external index raises on every query, both search functions return the
  empty list.
\<close>

theorem search_failure_gives_empty:
  "((\<exists>e. service = Inl e) \<or>
    (\<exists>svc e. service = Inr svc \<and> embed_query svc query_text = Inl e) \<or>
    (\<forall>q. \<exists>e. db_execute q = Inl e)
    \<longrightarrow> search_similar_patient_memories service db_execute query_text user_id
          match_threshold match_count = []) \<and>
   ((\<exists>e. service = Inl e) \<or>
    (\<exists>svc e. service = Inr svc \<and> embed_query svc query_text = Inl e) \<or>
    (\<forall>q. \<exists>e. db_execute' q = Inl e)
    \<longrightarrow> search_similar_messages service db_execute' isoformat query_text conversation_id
          match_threshold match_count = [])"
proof -
  have m: "search_similar_patient_memories service db_execute query_text user_id
             match_threshold match_count = []"
    if "(\<exists>e. service = Inl e) \<or>
        (\<exists>svc e. service = Inr svc \<and> embed_query svc query_text = Inl e) \<or>
        (\<forall>q. \<exists>e. db_execute q = Inl e)"
    using that
    by (auto simp add: search_similar_patient_memories_def search_memories_try_def
        split: sum.splits) (metis Inl_Inr_False)
  have w: "search_similar_messages service db_execute' isoformat query_text conversation_id
             match_threshold match_count = []"
    if "(\<exists>e. service = Inl e) \<or>
        (\<exists>svc e. service = Inr svc \<and> embed_query svc query_text = Inl e) \<or>
        (\<forall>q. \<exists>e. db_execute' q = Inl e)"
    using that
    by (auto simp add: search_similar_messages_def search_messages_try_def
        split: sum.splits) (metis Inl_Inr_False)
  from m w show ?thesis by blast
qed

theorem search_failure_gives_empty_witness:
  "search_similar_patient_memories (Inr (local_service length_model))
     (\<lambda>q. Inr [sample_memory_row]) (JStr '' '') (JStr ''u1'') (JNum (7 / 10)) (JNum 5) = [] \<and>
   search_similar_messages (Inr (local_service length_model))
     (\<lambda>q. Inl ProviderError) (\<lambda>t. ''2025'') (JStr ''fever'') JNull (JNum (7 / 10)) (JNum 10)
     = []"
proof -
  have 1: "embed_query (local_service length_model) (JStr '' '') = Inl ValueError"
    by (simp add: embed_query_def generate_embedding_def strip_def strip_chars_def
        py_isspace_def)
  show ?thesis
    using search_failure_gives_empty
            [where service = "Inr (local_service length_model)"
               and query_text = "JStr '' ''" and db_execute = "\<lambda>q. Inr [sample_memory_row]"
               and user_id = "JStr ''u1''" and match_threshold = "JNum (7 / 10)"
               and match_count = "JNum 5"]
          search_failure_gives_empty
            [where service = "Inr (local_service length_model)"
               and query_text = "JStr ''fever''" and db_execute' = "\<lambda>q. Inl ProviderError"
               and isoformat = "\<lambda>t. ''2025''" and conversation_id = JNull
               and match_threshold = "JNum (7 / 10)" and match_count = "JNum 10"]
          1
    by simp
qed

section \<open>Properties of persistence\<close>

text \<open>
  Claim C9.  With embedding generation enabled, when the attempt to embed raises or
  returns nothing, \<^verbatim>\<open>create_message\<close> and \<^verbatim>\<open>create_patient_memory\<close> return normally:
  the row is appended to its table with the embedding absent and every other field as
  given by the caller.
\<close>

theorem embedding_failure_still_persists:
  "(message_embedding_attempt out role' content' citations search_results = Inl e \<or>
    message_embedding_attempt out role' content' citations search_results = Inr None
    \<longrightarrow> create_message db out conversation_id role' content' citations search_results model'
          True =
        (db\<lparr>messages_table := messages_table db @
               [\<lparr>msg_id = generated_id out, msg_conversation_id = conversation_id,
                 msg_role = role', msg_content = content', msg_citations = citations,
                 msg_search_results = search_results, msg_content_embedding = None,
                 msg_model = model', msg_created_at = now_first out\<rparr>],
             conversations_table :=
               map (\<lambda>c. if conv_id c = conversation_id
                         then c\<lparr>conv_updated_at := now_second out\<rparr> else c)
                 (conversations_table db)\<rparr>,
         \<lparr>msg_id = generated_id out, msg_conversation_id = conversation_id,
          msg_role = role', msg_content = content', msg_citations = citations,
          msg_search_results = search_results, msg_content_embedding = None,
          msg_model = model', msg_created_at = now_first out\<rparr>)) \<and>
   (memory_embedding_attempt out entity_name entity_type relationships metadata = Inl e' \<or>
    memory_embedding_attempt out entity_name entity_type relationships metadata = Inr None
    \<longrightarrow> create_patient_memory db out user_id entity_type entity_name relationships metadata
          memory_conversation_id True =
        (db\<lparr>patient_memory_table := patient_memory_table db @
               [\<lparr>pm_id = generated_id out, pm_user_id = user_id,
                 pm_entity_type = entity_type, pm_entity_name = entity_name,
                 pm_relationships = relationships, pm_entity_metadata = metadata,
                 pm_content_embedding = None, pm_conversation_id = memory_conversation_id,
                 pm_created_at = now_first out, pm_updated_at = now_second out\<rparr>]\<rparr>,
         \<lparr>pm_id = generated_id out, pm_user_id = user_id,
          pm_entity_type = entity_type, pm_entity_name = entity_name,
          pm_relationships = relationships, pm_entity_metadata = metadata,
          pm_content_embedding = None, pm_conversation_id = memory_conversation_id,
          pm_created_at = now_first out, pm_updated_at = now_second out\<rparr>))"
  by (auto simp add: create_message_def create_patient_memory_def Let_def)

theorem embedding_failure_still_persists_witness:
  "messages_table
     (fst (create_message empty_db down_outside ''c1'' ''user'' ''hi'' None None None True))
     = [\<lparr>msg_id = ''id1'', msg_conversation_id = ''c1'', msg_role = ''user'',
         msg_content = ''hi'', msg_citations = None, msg_search_results = None,
         msg_content_embedding = None, msg_model = None, msg_created_at = 10\<rparr>] \<and>
   patient_memory_table
     (fst (create_patient_memory empty_db failing_outside ''u1'' ''condition'' ''flu'' None
             None None True))
     = [\<lparr>pm_id = ''id1'', pm_user_id = ''u1'', pm_entity_type = ''condition'',
         pm_entity_name = ''flu'', pm_relationships = None, pm_entity_metadata = None,
         pm_content_embedding = None, pm_conversation_id = None, pm_created_at = 10,
         pm_updated_at = 11\<rparr>]"
proof -
  have 1: "message_embedding_attempt down_outside ''user'' ''hi'' None None = Inr None"
    by (simp add: message_embedding_attempt_def down_outside_def
        generate_message_embedding_def message_text_def generate_embedding_def
        generate_openai_def openai_service_def down_client_def strip_def strip_chars_def
        py_isspace_def)
  have 2: "memory_embedding_attempt failing_outside ''flu'' ''condition'' None None
             = Inl RuntimeError"
    by (simp add: memory_embedding_attempt_def failing_outside_def)
  show ?thesis
    using embedding_failure_still_persists
            [where out = down_outside and db = empty_db and role' = "''user''"
               and content' = "''hi''" and citations = None and search_results = None
               and conversation_id = "''c1''" and model' = None and e = RuntimeError]
          embedding_failure_still_persists
            [where out = failing_outside and db = empty_db and entity_name = "''flu''"
               and entity_type = "''condition''" and relationships = None
               and metadata = None and user_id = "''u1''"
               and memory_conversation_id = None and e' = RuntimeError]
          1 2
    by (simp add: down_outside_def failing_outside_def empty_db_def)
qed

end
